theory Spec2Isabelle
  imports Main "HOL-Library.Finite_Map"
begin

section \<open>Data model\<close>

text \<open>
  The interface \<^verbatim>\<open>Review\<close> of \<^verbatim>\<open>src/types/index.ts\<close>. The field \<^verbatim>\<open>id\<close> is called
  \<open>reviewId\<close> here, since \<open>id\<close> is the identity function of HOL. Optional fields are
  options (\<open>None\<close>: the object has no such property); the numbers held are counts, hence
  naturals.
\<close>

record Review =
  reviewId :: string
  reviewerName :: string
  reviewerLocation :: "string option"
  rating :: nat
  reviewTitle :: string
  reviewText :: string
  reviewDate :: string
  helpfulVotes :: "nat option"
  totalVotes :: "nat option"
  isVerified :: "bool option"
  tripType :: "string option"
  stayDate :: "string option"

text \<open>
  JavaScript values, as far as the cache meets them: what \<^verbatim>\<open>JSON.parse\<close> returns, and the
  values of the properties of a review. Numbers are integers, and the properties of an
  object are a list of distinct names with their values. \<open>truthy\<close> is the test that \<^verbatim>\<open>||\<close>,
  \<^verbatim>\<open>&&\<close> and \<^verbatim>\<open>if\<close> make.
\<close>

datatype jsValue =
    JUndefined
  | JNull
  | JBool bool
  | JNumber int
  | JString string
  | JArray "jsValue list"
  | JObject "(string \<times> jsValue) list"

fun truthy :: "jsValue \<Rightarrow> bool" where
  "truthy JUndefined = False"
| "truthy JNull = False"
| "truthy (JBool b) = b"
| "truthy (JNumber n) = (n \<noteq> 0)"
| "truthy (JString s) = (s \<noteq> [])"
| "truthy (JArray vs) = True"
| "truthy (JObject properties) = True"

text \<open>
  The object \<^verbatim>\<open>reviews\<close> of the cache, indexed by review id: its own properties, and its
  prototype. The prototype of an object literal and of an object that \<^verbatim>\<open>JSON.parse\<close> builds
  is \<^verbatim>\<open>Object.prototype\<close> (\<open>None\<close> here); an assignment to the name \<^verbatim>\<open>__proto__\<close> replaces it
  by the object assigned, a review, whose own prototype is \<^verbatim>\<open>Object.prototype\<close>.
\<close>

record reviewsObject =
  ownProperties :: "(string, Review) fmap"
  prototypeReview :: "Review option"

text \<open>The interface \<^verbatim>\<open>CacheData\<close> of the review cache.\<close>

record CacheData =
  reviews :: reviewsObject
  lastUpdated :: string
  hotelUrl :: string

section \<open>Awaited calls\<close>

text \<open>
  A call on the browser either throws (a timeout, a detached element, a closed page) or
  yields its value. What the page holds is the input of the model; what the scraper does
  with each outcome is the code.
\<close>

datatype 'a attempt = Threw | Got 'a

text \<open>\<^verbatim>\<open>x || ''\<close> for a value that is a string or \<^verbatim>\<open>null\<close>.\<close>

fun orEmpty :: "string option \<Rightarrow> string" where
  "orEmpty None = []"
| "orEmpty (Some s) = s"

section \<open>Strings\<close>

text \<open>
  The string methods the scraper uses, on HOL strings (lists of 8-bit characters; the
  code units of a JavaScript string beyond that range are not modelled).
  \<^verbatim>\<open>s.startsWith(t)\<close> and \<^verbatim>\<open>s.includes(t)\<close>:
\<close>

definition startsWith :: "string \<Rightarrow> string \<Rightarrow> bool" where
  "startsWith s t = (take (length t) s = t)"

fun includesStr :: "string \<Rightarrow> string \<Rightarrow> bool" where
  "includesStr [] t = (t = [])"
| "includesStr (c # cs) t = (startsWith (c # cs) t \<or> includesStr cs t)"

text \<open>The character classes \<^verbatim>\<open>\d\<close> and \<^verbatim>\<open>\s\<close> of regular expressions (the white space
  of the first 256 code points), and \<^verbatim>\<open>toLowerCase\<close> on the letters A to Z.\<close>

definition isDigit :: "char \<Rightarrow> bool" where
  "isDigit c = (c \<in> set ''0123456789'')"

definition isSpace :: "char \<Rightarrow> bool" where
  "isSpace c = (c \<in> set [CHR '' '', CHR 0x09, CHR 0x0A, CHR 0x0B, CHR 0x0C, CHR 0x0D, CHR 0xA0])"

definition lowerChar :: "char \<Rightarrow> char" where
  "lowerChar c =
     (case map_of (zip ''ABCDEFGHIJKLMNOPQRSTUVWXYZ'' ''abcdefghijklmnopqrstuvwxyz'') c of
        Some l \<Rightarrow> l
      | None \<Rightarrow> c)"

definition toLowerCase :: "string \<Rightarrow> string" where
  "toLowerCase s = map lowerChar s"

text \<open>\<^verbatim>\<open>parseInt\<close> on a string of decimal digits (exact; the rounding of numbers beyond
  \<open>2^53\<close> is not modelled).\<close>

definition digitValue :: "char \<Rightarrow> nat" where
  "digitValue c =
     (case map_of (zip ''0123456789'' [0, 1, 2, 3, 4, 5, 6, 7, 8, 9]) c of
        Some d \<Rightarrow> d
      | None \<Rightarrow> 0)"

definition parseInt :: "string \<Rightarrow> nat" where
  "parseInt ds = foldl (\<lambda>n c. 10 * n + digitValue c) 0 ds"

text \<open>
  The regular expression \<^verbatim>\<open>/(\d+)\s+of\s+\d+\s+bubble/i\<close>. \<open>bubbleMatchAt s\<close> matches it at
  the start of \<open>s\<close> and returns group 1. Each of its parts is followed by a part that
  starts with a character of another class, so each \<^verbatim>\<open>+\<close> takes the whole run of its class
  and there is nothing to backtrack. \<open>bubbleMatch\<close> is \<^verbatim>\<open>s.match(...)\<close>: the leftmost match.
\<close>

definition bubbleMatchAt :: "string \<Rightarrow> string option" where
  "bubbleMatchAt s =
     (let afterRating = dropWhile isDigit s;
          atOf = dropWhile isSpace afterRating;
          afterOf = drop 2 atOf;
          atScale = dropWhile isSpace afterOf;
          afterScale = dropWhile isDigit atScale;
          atBubble = dropWhile isSpace afterScale
      in if takeWhile isDigit s \<noteq> [] \<and> takeWhile isSpace afterRating \<noteq> [] \<and>
            toLowerCase (take 2 atOf) = ''of'' \<and> takeWhile isSpace afterOf \<noteq> [] \<and>
            takeWhile isDigit atScale \<noteq> [] \<and> takeWhile isSpace afterScale \<noteq> [] \<and>
            toLowerCase (take 6 atBubble) = ''bubble''
         then Some (takeWhile isDigit s) else None)"

fun bubbleMatch :: "string \<Rightarrow> string option" where
  "bubbleMatch [] = bubbleMatchAt []"
| "bubbleMatch (c # cs) =
     (case bubbleMatchAt (c # cs) of Some group1 \<Rightarrow> Some group1 | None \<Rightarrow> bubbleMatch cs)"

text \<open>\<^verbatim>\<open>s.trim()\<close>, and the decimal numeral a template string prints for a number.\<close>

definition trimEnd :: "string \<Rightarrow> string" where
  "trimEnd s = rev (dropWhile isSpace (rev s))"

definition trim :: "string \<Rightarrow> string" where
  "trim s = trimEnd (dropWhile isSpace s)"

definition digitChar :: "nat \<Rightarrow> char" where
  "digitChar d = ''0123456789'' ! d"

fun showNat :: "nat \<Rightarrow> string" where
  "showNat n = (if n < 10 then [digitChar n] else showNat (n div 10) @ [digitChar (n mod 10)])"

declare showNat.simps [simp del]

text \<open>The classes \<^verbatim>\<open>[A-Z]\<close>, \<^verbatim>\<open>[a-z]\<close> and \<^verbatim>\<open>[a-zA-Z0-9]\<close>.\<close>

definition isUpper :: "char \<Rightarrow> bool" where
  "isUpper c = (c \<in> set ''ABCDEFGHIJKLMNOPQRSTUVWXYZ'')"

definition isLower :: "char \<Rightarrow> bool" where
  "isLower c = (c \<in> set ''abcdefghijklmnopqrstuvwxyz'')"

definition isAlphaNum :: "char \<Rightarrow> bool" where
  "isAlphaNum c = (isLower c \<or> isUpper c \<or> isDigit c)"

text \<open>\<^verbatim>\<open>.replace(/[^a-zA-Z0-9]/g, '_')\<close>, one character at a time.\<close>

definition sanitizeChar :: "char \<Rightarrow> char" where
  "sanitizeChar ch = (if isAlphaNum ch then ch else CHR ''_'')"

section \<open>The review cache\<close>

text \<open>
  The names of the properties of \<^verbatim>\<open>Object.prototype\<close>, which every plain object inherits,
  and the own properties of a review object with their values.
\<close>

definition objectPrototypeNames :: "string list" where
  "objectPrototypeNames =
     [''constructor'', ''__defineGetter__'', ''__defineSetter__'', ''hasOwnProperty'',
      ''__lookupGetter__'', ''__lookupSetter__'', ''isPrototypeOf'', ''propertyIsEnumerable'',
      ''toString'', ''valueOf'', ''__proto__'', ''toLocaleString'']"

definition reviewProperty :: "Review \<Rightarrow> string \<Rightarrow> jsValue option" where
  "reviewProperty r name =
     (if name = ''id'' then Some (JString (reviewId r))
      else if name = ''reviewerName'' then Some (JString (reviewerName r))
      else if name = ''reviewerLocation'' then map_option JString (reviewerLocation r)
      else if name = ''rating'' then Some (JNumber (int (rating r)))
      else if name = ''reviewTitle'' then Some (JString (reviewTitle r))
      else if name = ''reviewText'' then Some (JString (reviewText r))
      else if name = ''reviewDate'' then Some (JString (reviewDate r))
      else if name = ''helpfulVotes'' then map_option (\<lambda>n. JNumber (int n)) (helpfulVotes r)
      else if name = ''totalVotes'' then map_option (\<lambda>n. JNumber (int n)) (totalVotes r)
      else if name = ''isVerified'' then map_option JBool (isVerified r)
      else if name = ''tripType'' then map_option JString (tripType r)
      else if name = ''stayDate'' then map_option JString (stayDate r)
      else None)"

text \<open>The names an object inherits through its prototype chain: those of its prototype
  review, if it has one, and those of \<^verbatim>\<open>Object.prototype\<close>.\<close>

definition inheritsProperty :: "reviewsObject \<Rightarrow> string \<Rightarrow> bool" where
  "inheritsProperty obj name =
     (name \<in> set objectPrototypeNames \<or>
      (case prototypeReview obj of None \<Rightarrow> False | Some p \<Rightarrow> reviewProperty p name \<noteq> None))"



text \<open>\<^verbatim>\<open>hasReview\<close>: \<^verbatim>\<open>reviewId in this.cache.reviews\<close>. The operator \<^verbatim>\<open>in\<close> holds for own and
  for inherited properties.\<close>

definition hasReview :: "string \<Rightarrow> CacheData \<Rightarrow> bool" where
  "hasReview i c =
     (i \<in> fmdom' (ownProperties (reviews c)) \<or> inheritsProperty (reviews c) i)"

text \<open>
  \<^verbatim>\<open>getReview\<close>: \<^verbatim>\<open>this.cache.reviews[reviewId] || null\<close>. The property is looked up in the
  object, then in its prototype review, then in \<^verbatim>\<open>Object.prototype\<close>, whose members are
  functions except \<^verbatim>\<open>__proto__\<close>, which reads the prototype of the object. So what is
  returned is a review object, the truthy value of a property of the prototype review, a
  member of \<^verbatim>\<open>Object.prototype\<close> (or that object itself), or \<^verbatim>\<open>null\<close>.
\<close>

datatype reviewValue = ReviewObject Review | InheritedValue jsValue | PrototypeMember | NullValue

definition getReview :: "string \<Rightarrow> CacheData \<Rightarrow> reviewValue" where
  "getReview i c =
     (case fmlookup (ownProperties (reviews c)) i of
        Some r \<Rightarrow> ReviewObject r
      | None \<Rightarrow>
          (case prototypeReview (reviews c) of
             Some p \<Rightarrow>
               (case reviewProperty p i of
                  Some v \<Rightarrow> if truthy v then InheritedValue v else NullValue
                | None \<Rightarrow>
                    if i = ''__proto__'' then ReviewObject p
                    else if i \<in> set objectPrototypeNames then PrototypeMember
                    else NullValue)
           | None \<Rightarrow> if i \<in> set objectPrototypeNames then PrototypeMember else NullValue))"

text \<open>
  \<^verbatim>\<open>addReview\<close>: the assignment \<^verbatim>\<open>this.cache.reviews[review.id] = review\<close> happens only when
  \<^verbatim>\<open>review.id\<close> is truthy, and a string is truthy when it is not empty. The assignment
  sets an own property, except for the name \<^verbatim>\<open>__proto__\<close> when the object has no own
  property of that name: then the setter inherited from \<^verbatim>\<open>Object.prototype\<close> makes the
  review the prototype of the object.
\<close>

definition assignReview :: "string \<Rightarrow> Review \<Rightarrow> reviewsObject \<Rightarrow> reviewsObject" where
  "assignReview name review obj =
     (if name = ''__proto__'' \<and> name \<notin> fmdom' (ownProperties obj)
      then obj\<lparr>prototypeReview := Some review\<rparr>
      else obj\<lparr>ownProperties := fmupd name review (ownProperties obj)\<rparr>)"

definition addReview :: "Review \<Rightarrow> CacheData \<Rightarrow> CacheData" where
  "addReview review c =
     (if reviewId review \<noteq> [] then c\<lparr>reviews := assignReview (reviewId review) review (reviews c)\<rparr>
      else c)"

text \<open>\<^verbatim>\<open>addReviews\<close>: the \<^verbatim>\<open>forEach\<close> loop, carrying the cache and \<^verbatim>\<open>newCount\<close> (which the
  source only logs).\<close>

fun addReviews_loop :: "Review list \<Rightarrow> CacheData \<times> nat \<Rightarrow> CacheData \<times> nat" where
  "addReviews_loop [] (c, newCount) = (c, newCount)"
| "addReviews_loop (review # rest) (c, newCount) =
     (if reviewId review \<noteq> [] \<and> \<not> hasReview (reviewId review) c
      then addReviews_loop rest (addReview review c, newCount + 1)
      else addReviews_loop rest (c, newCount))"

definition addReviews :: "Review list \<Rightarrow> CacheData \<Rightarrow> CacheData \<times> nat" where
  "addReviews rs c = addReviews_loop rs (c, 0)"

text \<open>\<^verbatim>\<open>getCachedReviewCount\<close>: \<^verbatim>\<open>Object.keys(this.cache.reviews).length\<close>, the number of own
  properties.\<close>

definition getCachedReviewCount :: "CacheData \<Rightarrow> nat" where
  "getCachedReviewCount c = card (fmdom' (ownProperties (reviews c)))"

text \<open>The ids of a sequence of reviews, and those of them that are truthy.\<close>

definition identities :: "Review list \<Rightarrow> string set" where
  "identities rs = set (map reviewId rs)"

definition truthy_identities :: "Review list \<Rightarrow> string set" where
  "truthy_identities rs = set (filter (\<lambda>i. i \<noteq> []) (map reviewId rs))"

text \<open>Test data: a review with the given id, and the cache a constructor builds before
  anything is loaded.\<close>

definition mkReview :: "string \<Rightarrow> Review" where
  "mkReview i = \<lparr>reviewId = i, reviewerName = ''Ann'', reviewerLocation = None, rating = 5,
     reviewTitle = ''Lovely stay'', reviewText = ''We had a lovely stay here.'',
     reviewDate = ''May 2024'', helpfulVotes = Some 0, totalVotes = None,
     isVerified = Some False, tripType = None, stayDate = None\<rparr>"

definition freshCache :: "string \<Rightarrow> string \<Rightarrow> CacheData" where
  "freshCache now u =
     \<lparr>reviews = \<lparr>ownProperties = fmempty, prototypeReview = None\<rparr>, lastUpdated = now,
      hotelUrl = u\<rparr>"

section \<open>The session loop\<close>

text \<open>
  \<^verbatim>\<open>maxReviews?: number\<close> is \<open>int option\<close>, \<open>None\<close> for \<^verbatim>\<open>undefined\<close>. The loop tests it
  by truthiness: \<^verbatim>\<open>undefined\<close> and \<^verbatim>\<open>0\<close> are falsy (so is \<^verbatim>\<open>NaN\<close>, which is not modelled).
\<close>

text \<open>\<^verbatim>\<open>!maxReviews || allReviews.length < maxReviews\<close>.\<close>

fun belowCap :: "int option \<Rightarrow> Review list \<Rightarrow> bool" where
  "belowCap None allReviews = True"
| "belowCap (Some n) allReviews = (if n \<noteq> 0 then int (length allReviews) < n else True)"

text \<open>\<^verbatim>\<open>maxReviews && allReviews.length >= maxReviews\<close>.\<close>

fun capReached :: "int option \<Rightarrow> Review list \<Rightarrow> bool" where
  "capReached None allReviews = False"
| "capReached (Some n) allReviews = (n \<noteq> 0 \<and> n \<le> int (length allReviews))"

text \<open>\<^verbatim>\<open>allReviews.some(existing => existing.id === review.id)\<close>.\<close>

definition alreadyCollected :: "Review list \<Rightarrow> Review \<Rightarrow> bool" where
  "alreadyCollected allReviews review =
     list_ex (\<lambda>existing. reviewId existing = reviewId review) allReviews"

text \<open>The \<^verbatim>\<open>for (const review of pageReviews)\<close> loop, carrying \<^verbatim>\<open>allReviews\<close> and
  \<^verbatim>\<open>addedCount\<close>.\<close>

fun addPage :: "int option \<Rightarrow> Review list \<Rightarrow> Review list \<times> nat \<Rightarrow> Review list \<times> nat" where
  "addPage maxReviews [] (allReviews, addedCount) = (allReviews, addedCount)"
| "addPage maxReviews (review # rest) (allReviews, addedCount) =
     (if belowCap maxReviews allReviews \<and> \<not> alreadyCollected allReviews review
      then addPage maxReviews rest (allReviews @ [review], addedCount + 1)
      else addPage maxReviews rest (allReviews, addedCount))"

text \<open>
  What the listing shows to a session: for the page numbered \<^verbatim>\<open>currentPage\<close>, the reviews
  \<^verbatim>\<open>extractReviews\<close> returns there and the boolean \<^verbatim>\<open>navigateToNextPage\<close> returns when
  called on it.
\<close>

record pageVisit =
  pageReviews :: "Review list"
  nextPageOpens :: bool

text \<open>
  The \<^verbatim>\<open>while\<close> loop of \<^verbatim>\<open>extractAllReviewsWithPagination\<close>. It can run forever, so it
  takes fuel, one unit for each test of the loop condition; \<open>None\<close> says that the loop
  has not returned within that many. The state is
  \<^verbatim>\<open>(currentPage, hasMorePages, allReviews)\<close>. (A session in which \<^verbatim>\<open>extractReviews\<close> throws
  returns no list; such sessions are not among the listings modelled here.)
\<close>

fun paginate ::
  "nat \<Rightarrow> (nat \<Rightarrow> pageVisit) \<Rightarrow> int option \<Rightarrow> nat \<times> bool \<times> Review list \<Rightarrow> Review list option" where
  "paginate 0 listing maxReviews st = None"
| "paginate (Suc fuel) listing maxReviews (currentPage, hasMorePages, allReviews) =
     (if hasMorePages \<and> belowCap maxReviews allReviews then
        (case addPage maxReviews (pageReviews (listing currentPage)) (allReviews, 0) of
           (allReviews', addedCount) \<Rightarrow>
             if capReached maxReviews allReviews' then Some allReviews'
             else if nextPageOpens (listing currentPage)
               then paginate fuel listing maxReviews (currentPage + 1, True, allReviews')
               else paginate fuel listing maxReviews (currentPage, False, allReviews'))
      else Some allReviews)"

definition extractAllReviewsWithPagination ::
  "nat \<Rightarrow> (nat \<Rightarrow> pageVisit) \<Rightarrow> int option \<Rightarrow> Review list option" where
  "extractAllReviewsWithPagination fuel listing maxReviews =
     paginate fuel listing maxReviews (1, True, [])"

text \<open>Listings for the examples: one page of three reviews and no next page; and a
  listing whose every page shows the same review and always opens a next page.\<close>

definition singlePageListing :: "nat \<Rightarrow> pageVisit" where
  "singlePageListing p =
     \<lparr>pageReviews = [mkReview ''r1'', mkReview ''r2'', mkReview ''r3''], nextPageOpens = False\<rparr>"

definition stagnantListing :: "nat \<Rightarrow> pageVisit" where
  "stagnantListing p = \<lparr>pageReviews = [mkReview ''r1''], nextPageOpens = True\<rparr>"

section \<open>The pagination driver\<close>

text \<open>
  What \<^verbatim>\<open>navigateToNextPage\<close> sees of the first element matching one selector: whether it
  is visible, its \<^verbatim>\<open>disabled\<close> and \<^verbatim>\<open>href\<close> attributes (\<open>None\<close> is \<^verbatim>\<open>null\<close>), and what clicking it
  and waiting for the network to go idle does: it throws, or the page that loads shows
  some number of review cards (elements with \<^verbatim>\<open>data-reviewid\<close>) and has new content or
  the same content as before.
\<close>

record loadedPage =
  cardCount :: nat
  contentChanged :: bool

record nextButton =
  isVisible :: "bool attempt"
  disabledAttr :: "string option attempt"
  hrefAttr :: "string option attempt"
  clickAndWait :: "loadedPage attempt"

definition nextPageSelectors :: "string list" where
  "nextPageSelectors =
     [''a[data-smoke-attr=\"pagination-next-arrow\"]'',
      ''a[aria-label=\"Next page\"]'',
      ''.IGLCo a'',
      ''a:has-text(\"Next\")'',
      ''a[href*=\"or10-\"], a[href*=\"or20-\"], a[href*=\"or30-\"]'',
      ''.pagination a:last-child'',
      ''a:has(svg):last-of-type'']"

text \<open>
  The \<^verbatim>\<open>for (const selector of nextPageSelectors)\<close> loop. Each selector is tried inside
  \<^verbatim>\<open>try\<close>; whatever throws there is caught and the loop continues. A string attribute is
  truthy when it is present and not empty. The page is taken to stay as it is until a
  click succeeds.
\<close>

fun tryNextButtons :: "(string \<Rightarrow> nextButton) \<Rightarrow> string list \<Rightarrow> bool" where
  "tryNextButtons locator [] = False"
| "tryNextButtons locator (selector # rest) =
     (case isVisible (locator selector) of
        Threw \<Rightarrow> tryNextButtons locator rest
      | Got visible \<Rightarrow>
          if \<not> visible then tryNextButtons locator rest
          else (case disabledAttr (locator selector) of
            Threw \<Rightarrow> tryNextButtons locator rest
          | Got isDisabled \<Rightarrow>
              if orEmpty isDisabled \<noteq> [] then tryNextButtons locator rest
              else (case hrefAttr (locator selector) of
                Threw \<Rightarrow> tryNextButtons locator rest
              | Got href \<Rightarrow>
                  if orEmpty href \<noteq> [] then
                    (case clickAndWait (locator selector) of
                       Threw \<Rightarrow> tryNextButtons locator rest
                     | Got loaded \<Rightarrow> True)
                  else tryNextButtons locator rest)))"

text \<open>\<^verbatim>\<open>navigateToNextPage\<close>; \<open>None\<close> is \<^verbatim>\<open>this.page === null\<close>.\<close>

fun navigateToNextPage :: "(string \<Rightarrow> nextButton) option \<Rightarrow> bool" where
  "navigateToNextPage None = False"
| "navigateToNextPage (Some locator) = tryNextButtons locator nextPageSelectors"

text \<open>A page whose next-page arrow is visible, enabled and linked, where the click
  succeeds and the page that loads shows no review card and nothing new.\<close>

definition deadEndPage :: "string \<Rightarrow> nextButton" where
  "deadEndPage selector =
     \<lparr>isVisible = Got True, disabledAttr = Got None,
      hrefAttr = Got (Some ''/Hotel_Review-g1-d2-Reviews-or10-X.html''),
      clickAndWait = Got \<lparr>cardCount = 0, contentChanged = False\<rparr>\<rparr>"

section \<open>The card locator\<close>

text \<open>
  The queries the card-finding phase of \<^verbatim>\<open>extractReviews\<close> makes, over handles of type
  \<open>'h\<close>: \<^verbatim>\<open>page.locator(selector).all()\<close>, \<^verbatim>\<open>card.getAttribute('id')\<close>, \<^verbatim>\<open>card.textContent()\<close>
  and \<^verbatim>\<open>card.locator(innerSelector).all()\<close>.
\<close>

record 'h document =
  queryAll :: "string \<Rightarrow> 'h list attempt"
  getId :: "'h \<Rightarrow> string option attempt"
  textContent :: "'h \<Rightarrow> string option attempt"
  queryInside :: "'h \<Rightarrow> string \<Rightarrow> 'h list attempt"

definition reviewCardSelectors :: "string list" where
  "reviewCardSelectors =
     [''[data-reviewid]'',
      ''[data-test-target=\"review-card\"]'',
      ''.review-container'',
      ''#tab-review-content div:has(svg[aria-labelledby])'',
      ''#tab-review-content div:has([href*=\"/Profile/\"])'',
      ''#tab-review-content div:has-text(\"wrote a review\")'',
      ''#tab-review-content > div > div'',
      ''#tab-review-content [class*=\"review\"]'',
      ''#tab-review-content > div'',
      ''[class*=\"review\"]'',
      ''.ui_column.is-9 > div'',
      ''article'',
      ''div[id*=\"review\"]'']"

definition innerSelectors :: "string list" where
  "innerSelectors =
     [''> div > div[class*=\"review\"]'',
      ''> div > div'',
      ''> div'',
      ''div[data-automation]'',
      ''div[class*=\"ui_column\"]'']"

text \<open>\<^verbatim>\<open>cardId === 'tab-review-content' || cardText.includes('FiltersEnglish')\<close>.\<close>

definition isContainer :: "string \<Rightarrow> string \<Rightarrow> bool" where
  "isContainer cardId cardText =
     (cardId = ''tab-review-content'' \<or> includesStr cardText ''FiltersEnglish'')"

text \<open>
  The \<^verbatim>\<open>for (const innerSelector of innerSelectors)\<close> loop; its result is the value of
  \<^verbatim>\<open>reviewCards\<close> after it, which was \<^verbatim>\<open>[]\<close> before. A query that throws is skipped.
\<close>

fun searchInside :: "'h document \<Rightarrow> 'h \<Rightarrow> string list \<Rightarrow> 'h list" where
  "searchInside doc container [] = []"
| "searchInside doc container (innerSelector # rest) =
     (case queryInside doc container innerSelector of
        Threw \<Rightarrow> searchInside doc container rest
      | Got innerCards \<Rightarrow>
          if length innerCards > 1 then innerCards else searchInside doc container rest)"

text \<open>
  The \<^verbatim>\<open>for (const selector of reviewCardSelectors)\<close> loop; its result is the value of
  \<^verbatim>\<open>reviewCards\<close> after it. The body is inside \<^verbatim>\<open>try\<close>, and \<^verbatim>\<open>catch\<close> continues with the next
  selector. (The block that prints the first three cards has a \<^verbatim>\<open>try\<close> of its own and
  changes nothing, so it is left out.)
\<close>

fun findCards :: "'h document \<Rightarrow> string list \<Rightarrow> 'h list" where
  "findCards doc [] = []"
| "findCards doc (selector # rest) =
     (case queryAll doc selector of
        Threw \<Rightarrow> findCards doc rest
      | Got cards \<Rightarrow>
          if length cards > 0 then
            (if length cards = 1 then
               (case getId doc (hd cards) of
                  Threw \<Rightarrow> findCards doc rest
                | Got cardId \<Rightarrow>
                    (case textContent doc (hd cards) of
                       Threw \<Rightarrow> findCards doc rest
                     | Got cardText \<Rightarrow>
                         if isContainer (orEmpty cardId) (orEmpty cardText) then
                           (if length (searchInside doc (hd cards) innerSelectors) > 1
                            then searchInside doc (hd cards) innerSelectors
                            else cards)
                         else cards))
             else cards)
          else findCards doc rest)"

definition locateCards :: "'h document \<Rightarrow> 'h list" where
  "locateCards doc = findCards doc reviewCardSelectors"

text \<open>
  The locator in the words of the specification. A selector yields a match when its query
  returns at least one handle; it serves when, moreover, for a single match the reads of
  that match's id and text do not throw. A child selector yields many when its query inside
  the container returns more than one handle.
\<close>

definition matchesOf :: "'h document \<Rightarrow> string \<Rightarrow> 'h list" where
  "matchesOf doc selector = (case queryAll doc selector of Threw \<Rightarrow> [] | Got cards \<Rightarrow> cards)"

definition yieldsMatch :: "'h document \<Rightarrow> string \<Rightarrow> bool" where
  "yieldsMatch doc selector = (matchesOf doc selector \<noteq> [])"

definition serves :: "'h document \<Rightarrow> string \<Rightarrow> bool" where
  "serves doc selector =
     (yieldsMatch doc selector \<and>
      (if length (matchesOf doc selector) = 1
       then getId doc (hd (matchesOf doc selector)) \<noteq> Threw \<and>
            textContent doc (hd (matchesOf doc selector)) \<noteq> Threw
       else True))"

definition childrenOf :: "'h document \<Rightarrow> 'h \<Rightarrow> string \<Rightarrow> 'h list" where
  "childrenOf doc container innerSelector =
     (case queryInside doc container innerSelector of Threw \<Rightarrow> [] | Got cs \<Rightarrow> cs)"

definition yieldsMany :: "'h document \<Rightarrow> 'h \<Rightarrow> string \<Rightarrow> bool" where
  "yieldsMany doc container innerSelector = (length (childrenOf doc container innerSelector) > 1)"

definition recognisedContainer :: "'h document \<Rightarrow> 'h \<Rightarrow> bool" where
  "recognisedContainer doc h =
     (case getId doc h of
        Threw \<Rightarrow> False
      | Got cardId \<Rightarrow>
          (case textContent doc h of
             Threw \<Rightarrow> False
           | Got cardText \<Rightarrow> isContainer (orEmpty cardId) (orEmpty cardText)))"

definition cardsOfSelector :: "'h document \<Rightarrow> string list \<Rightarrow> string \<Rightarrow> 'h list" where
  "cardsOfSelector doc inners selector =
     (if length (matchesOf doc selector) = 1 \<and> recognisedContainer doc (hd (matchesOf doc selector))
      then (case find (yieldsMany doc (hd (matchesOf doc selector))) inners of
              Some innerSelector \<Rightarrow> childrenOf doc (hd (matchesOf doc selector)) innerSelector
            | None \<Rightarrow> matchesOf doc selector)
      else matchesOf doc selector)"

definition specifiedCards :: "'h document \<Rightarrow> string list \<Rightarrow> string list \<Rightarrow> 'h list" where
  "specifiedCards doc selectors inners =
     (case find (serves doc) selectors of
        None \<Rightarrow> []
      | Some selector \<Rightarrow> cardsOfSelector doc inners selector)"

text \<open>
  Documents for the examples, over handles that are numbers. In \<open>containerDocument\<close>
  only \<^verbatim>\<open>.review-container\<close> matches, one element whose id is \<^verbatim>\<open>tab-review-content\<close>; inside
  it the first child selector finds one element and the second finds three. In
  \<open>detachedDocument\<close> the first selector matches one element whose attributes cannot be
  read, and the second selector matches two elements.
\<close>

definition containerDocument :: "nat document" where
  "containerDocument =
     \<lparr>queryAll = (\<lambda>selector. if selector = ''.review-container'' then Got [0] else Got []),
      getId = (\<lambda>h. Got (if h = 0 then Some ''tab-review-content'' else None)),
      textContent = (\<lambda>h. Got (Some ''Great hotel'')),
      queryInside = (\<lambda>h innerSelector.
        if innerSelector = ''> div > div[class*=\"review\"]'' then Got [1]
        else if innerSelector = ''> div > div'' then Got [2, 3, 4]
        else Threw)\<rparr>"

definition detachedDocument :: "nat document" where
  "detachedDocument =
     \<lparr>queryAll = (\<lambda>selector.
        if selector = ''[data-reviewid]'' then Got [0]
        else if selector = ''[data-test-target=\"review-card\"]'' then Got [1, 2]
        else Got []),
      getId = (\<lambda>h. Threw),
      textContent = (\<lambda>h. Threw),
      queryInside = (\<lambda>h innerSelector. Threw)\<rparr>"

section \<open>Loading the cache file\<close>

text \<open>
  \<^verbatim>\<open>loadCache\<close> assigns to \<^verbatim>\<open>this.cache\<close> whatever \<^verbatim>\<open>JSON.parse\<close> returns, so the cache is a
  JavaScript value here and not yet a \<^verbatim>\<open>CacheData\<close>.
\<close>

text \<open>
  \<^verbatim>\<open>v.name\<close>, for the names \<^verbatim>\<open>reviews\<close> and \<^verbatim>\<open>hotelUrl\<close> read by \<^verbatim>\<open>loadCache\<close>: a \<^verbatim>\<open>TypeError\<close> on
  \<^verbatim>\<open>null\<close> and \<^verbatim>\<open>undefined\<close>, the property of an object, and \<^verbatim>\<open>undefined\<close> on a boolean, a number,
  a string or an array, which have no property of these names.
\<close>

fun getProperty :: "jsValue \<Rightarrow> string \<Rightarrow> jsValue attempt" where
  "getProperty JUndefined name = Threw"
| "getProperty JNull name = Threw"
| "getProperty (JObject properties) name =
     Got (case map_of properties name of None \<Rightarrow> JUndefined | Some v \<Rightarrow> v)"
| "getProperty (JBool b) name = Got JUndefined"
| "getProperty (JNumber n) name = Got JUndefined"
| "getProperty (JString s) name = Got JUndefined"
| "getProperty (JArray vs) name = Got JUndefined"

text \<open>\<^verbatim>\<open>Object.keys(v).length\<close>: a \<^verbatim>\<open>TypeError\<close> on \<^verbatim>\<open>null\<close> and \<^verbatim>\<open>undefined\<close>; the number of
  properties of an object, of indices of an array or a string; none for a boolean or a
  number.\<close>

fun objectKeysLength :: "jsValue \<Rightarrow> nat attempt" where
  "objectKeysLength JUndefined = Threw"
| "objectKeysLength JNull = Threw"
| "objectKeysLength (JObject properties) = Got (length properties)"
| "objectKeysLength (JArray vs) = Got (length vs)"
| "objectKeysLength (JString s) = Got (length s)"
| "objectKeysLength (JBool b) = Got 0"
| "objectKeysLength (JNumber n) = Got 0"

text \<open>
  The state of the cache file: \<^verbatim>\<open>existsSync\<close> is false; \<^verbatim>\<open>readFileSync\<close> throws;
  \<^verbatim>\<open>JSON.parse\<close> throws on the text; or \<^verbatim>\<open>JSON.parse\<close> returns a value.
\<close>

datatype cacheFile = Absent | Unreadable | Unparsable | Parsed jsValue

datatype logLine = LoadedCache nat | NoExistingCache | ErrorLoadingCache

text \<open>
  The \<^verbatim>\<open>catch\<close> block of \<^verbatim>\<open>loadCache\<close>, run with the value \<^verbatim>\<open>this.cache\<close> has at that moment:
  it logs, then builds the empty cache, reading \<^verbatim>\<open>this.cache.hotelUrl\<close> for it. The
  result is the new value of \<^verbatim>\<open>this.cache\<close>, or \<open>Threw\<close> when the block itself throws, with
  the lines logged.
\<close>

definition startFresh :: "string \<Rightarrow> jsValue \<Rightarrow> jsValue attempt \<times> logLine list" where
  "startFresh now cache =
     (case getProperty cache ''hotelUrl'' of
        Threw \<Rightarrow> (Threw, [ErrorLoadingCache])
      | Got u \<Rightarrow>
          (Got (JObject [(''reviews'', JObject []), (''lastUpdated'', JString now), (''hotelUrl'', u)]),
           [ErrorLoadingCache]))"

text \<open>
  \<^verbatim>\<open>loadCache\<close>. When the file is parsed, \<^verbatim>\<open>this.cache\<close> is assigned before the log line
  reads \<^verbatim>\<open>Object.keys(this.cache.reviews).length\<close>, so the \<^verbatim>\<open>catch\<close> block then sees the
  parsed value.
\<close>

fun loadCache :: "string \<Rightarrow> cacheFile \<Rightarrow> jsValue \<Rightarrow> jsValue attempt \<times> logLine list" where
  "loadCache now Absent cache = (Got cache, [NoExistingCache])"
| "loadCache now Unreadable cache = startFresh now cache"
| "loadCache now Unparsable cache = startFresh now cache"
| "loadCache now (Parsed parsed) cache =
     (case getProperty parsed ''reviews'' of
        Threw \<Rightarrow> startFresh now parsed
      | Got rs \<Rightarrow>
          (case objectKeysLength rs of
             Threw \<Rightarrow> startFresh now parsed
           | Got n \<Rightarrow> (Got parsed, [LoadedCache n])))"

text \<open>The value the constructor gives \<^verbatim>\<open>this.cache\<close> before it calls \<^verbatim>\<open>loadCache\<close>.\<close>

definition constructedCache :: "string \<Rightarrow> string \<Rightarrow> jsValue" where
  "constructedCache now u =
     JObject [(''reviews'', JObject []), (''lastUpdated'', JString now), (''hotelUrl'', JString u)]"

section \<open>Extracting the rating\<close>

text \<open>
  What \<^verbatim>\<open>extractRatingFromCard\<close> reads of a card: the text of the \<^verbatim>\<open>title\<close> of each \<^verbatim>\<open>svg\<close>
  (the list itself when \<^verbatim>\<open>card.locator('svg').all()\<close> does not throw); the attribute
  \<^verbatim>\<open>aria-labelledby\<close> of the first \<^verbatim>\<open>svg\<close> that has one; the text of the \<^verbatim>\<open>title\<close> element of a
  given id; and the number of filled bubble paths.
\<close>

record ratingCard =
  svgTitles :: "string option attempt list attempt"
  ariaLabelledby :: "string option attempt"
  titleOfId :: "string \<Rightarrow> string option attempt"
  filledBubbles :: "nat attempt"

text \<open>Reading a rating out of a title text: \<open>Some\<close> is the value returned, \<open>None\<close> says
  that the code goes on.\<close>

definition ratingOfTitle :: "string option \<Rightarrow> nat option" where
  "ratingOfTitle title =
     (if orEmpty title \<noteq> [] \<and> includesStr (orEmpty title) ''bubble''
      then map_option parseInt (bubbleMatch (orEmpty title))
      else None)"

text \<open>Method 1, the loop over the \<^verbatim>\<open>svg\<close> elements; a title that cannot be read is
  skipped.\<close>

fun ratingFromSvgTitles :: "string option attempt list \<Rightarrow> nat option" where
  "ratingFromSvgTitles [] = None"
| "ratingFromSvgTitles (Threw # rest) = ratingFromSvgTitles rest"
| "ratingFromSvgTitles (Got title # rest) =
     (case ratingOfTitle title of
        Some n \<Rightarrow> Some n
      | None \<Rightarrow> ratingFromSvgTitles rest)"

text \<open>Method 2, through \<^verbatim>\<open>aria-labelledby\<close>; anything thrown ends the method.\<close>

definition ratingFromAriaLabel :: "ratingCard \<Rightarrow> nat option" where
  "ratingFromAriaLabel c =
     (case ariaLabelledby c of
        Threw \<Rightarrow> None
      | Got ariaId \<Rightarrow>
          if orEmpty ariaId \<noteq> [] then
            (case titleOfId c (orEmpty ariaId) of
               Threw \<Rightarrow> None
             | Got titleText \<Rightarrow> ratingOfTitle titleText)
          else None)"

text \<open>Method 3, the count of filled bubbles, and the default.\<close>

definition ratingFromBubbleCount :: "ratingCard \<Rightarrow> nat" where
  "ratingFromBubbleCount c =
     (case filledBubbles c of
        Threw \<Rightarrow> 0
      | Got n \<Rightarrow> if n > 0 \<and> n \<le> 5 then n else 0)"

definition extractRatingFromCard :: "ratingCard \<Rightarrow> nat" where
  "extractRatingFromCard c =
     (case (case svgTitles c of Threw \<Rightarrow> None | Got titles \<Rightarrow> ratingFromSvgTitles titles) of
        Some n \<Rightarrow> n
      | None \<Rightarrow>
          (case ratingFromAriaLabel c of
             Some n \<Rightarrow> n
           | None \<Rightarrow> ratingFromBubbleCount c))"

text \<open>Cards for the examples: one whose only \<^verbatim>\<open>svg\<close> is titled with the given text and
  which shows the given number of filled bubbles.\<close>

definition titledCard :: "string \<Rightarrow> nat \<Rightarrow> ratingCard" where
  "titledCard title filled =
     \<lparr>svgTitles = Got [Got (Some title)], ariaLabelledby = Threw,
      titleOfId = (\<lambda>i. Threw), filledBubbles = Got filled\<rparr>"

section \<open>Extracting the fields of a card\<close>

text \<open>
  What \<^verbatim>\<open>processSingleReviewCard\<close> and the extractors read of a card:
  \<^item> the attributes \<^verbatim>\<open>data-reviewid\<close> and \<^verbatim>\<open>id\<close> and the text of the card;
  \<^item> for each profile link, the text of its first \<^verbatim>\<open>span\<close> (the list itself when the query
    for the links does not throw);
  \<^item> the text of the author link beside the words \<^verbatim>\<open>wrote a review\<close>;
  \<^item> for a selector, the texts of all elements it matches, as the loop using that selector
    reads them (\<open>Threw\<close> for an element whose \<^verbatim>\<open>waitFor\<close> or \<^verbatim>\<open>textContent\<close> throws);
  \<^item> for a selector, the text of the first element it matches (\<open>Threw\<close> when \<^verbatim>\<open>waitFor\<close>
    times out or \<^verbatim>\<open>textContent\<close> throws);
  \<^item> what the rating is read from.
\<close>

record reviewCard =
  dataReviewid :: "string option attempt"
  idAttribute :: "string option attempt"
  cardTextContent :: "string option attempt"
  profileLinkSpans :: "string option attempt list attempt"
  wroteAReviewAuthor :: "string option attempt"
  elementTexts :: "string \<Rightarrow> string option attempt list attempt"
  firstText :: "string \<Rightarrow> string option attempt"
  ratingQueries :: ratingCard

subsection \<open>The reviewer name\<close>

text \<open>Method 1: the test on the text of a profile link's \<^verbatim>\<open>span\<close>.\<close>

definition acceptProfileSpan :: "string \<Rightarrow> bool" where
  "acceptProfileSpan text =
     (text \<noteq> [] \<and> trim text \<noteq> [] \<and>
      \<not> includesStr text ''wrote'' \<and>
      \<not> includesStr text ''Read more'' \<and>
      \<not> includesStr text ''contributions'' \<and>
      \<not> includesStr text ''helpful'' \<and>
      \<not> includesStr text ''Filters'' \<and>
      \<not> includesStr text ''Filter'' \<and>
      \<not> includesStr text ''Sort'' \<and>
      \<not> includesStr text ''Menu'' \<and>
      \<not> includesStr text ''Search'' \<and>
      length (trim text) > 2 \<and>
      length (trim text) < 50)"

fun nameFromProfileLinks :: "string option attempt list \<Rightarrow> string option" where
  "nameFromProfileLinks [] = None"
| "nameFromProfileLinks (Threw # rest) = nameFromProfileLinks rest"
| "nameFromProfileLinks (Got text # rest) =
     (if acceptProfileSpan (orEmpty text) then Some (trim (orEmpty text))
      else nameFromProfileLinks rest)"

text \<open>Method 2: \<^verbatim>\<open>text && text.trim()\<close>.\<close>

definition nameFromWroteAReview :: "string option attempt \<Rightarrow> string option" where
  "nameFromWroteAReview author =
     (case author of
        Threw \<Rightarrow> None
      | Got text \<Rightarrow>
          if orEmpty text \<noteq> [] \<and> trim (orEmpty text) \<noteq> [] then Some (trim (orEmpty text))
          else None)"

text \<open>Method 3: the list of user-interface words, \<^verbatim>\<open>isUIElement\<close>, the test for a month
  \<^verbatim>\<open>/^(jan|feb|...|dec)/i\<close>, and the selectors.\<close>

definition uiElementsToFilter :: "string list" where
  "uiElementsToFilter =
     [''filters'', ''filter'', ''sort'', ''menu'', ''search'', ''show more'', ''show less'',
      ''read more'', ''wrote a review'', ''contributions'', ''helpful votes'',
      ''hotel's favourite'', ''response from'', ''date of stay'', ''trip type'',
      ''reviews'', ''photos'', ''location'', ''contact'', ''book now'', ''check availability'',
      ''overview'', ''amenities'', ''policies'', ''the area'', ''guest reviews'',
      ''map'', ''nearby'', ''similar'', ''more'', ''less'', ''all'', ''none'', ''apply'',
      ''clear'', ''close'', ''open'', ''save'', ''share'', ''like'', ''follow'',
      ''traveller'', ''business'', ''family'', ''couple'', ''solo'', ''friends'']"

definition isUIElement :: "string \<Rightarrow> bool" where
  "isUIElement text =
     list_ex (\<lambda>uiText. trim (toLowerCase text) = uiText \<or> includesStr (trim (toLowerCase text)) uiText)
       uiElementsToFilter"

definition startsWithMonth :: "string \<Rightarrow> bool" where
  "startsWithMonth text =
     list_ex (\<lambda>month. startsWith (toLowerCase text) month)
       [''jan'', ''feb'', ''mar'', ''apr'', ''may'', ''jun'', ''jul'', ''aug'', ''sep'', ''oct'',
        ''nov'', ''dec'']"

definition nameSelectors :: "string list" where
  "nameSelectors =
     [''a[href*=\"/Profile/\"] > span'',
      ''span:text-matches(\"^[A-Z][a-z]+'' @ [CHR 0x5C, CHR 0x5C] @ ''s+[A-Z]\")'',
      ''span:text-matches(\"^[A-Z][a-z]{2,}$\")'']"

text \<open>The test of method 3, with \<^verbatim>\<open>/^[A-Za-z]/\<close>, and the test of the final fallback, with
  \<^verbatim>\<open>/^[A-Z][a-z]+/\<close>.\<close>

definition acceptNameElement :: "string \<Rightarrow> bool" where
  "acceptNameElement text =
     (text \<noteq> [] \<and> trim text \<noteq> [] \<and>
      length (trim text) > 2 \<and>
      length (trim text) < 50 \<and>
      (isUpper (hd (trim text)) \<or> isLower (hd (trim text))) \<and>
      \<not> startsWithMonth (trim text) \<and>
      \<not> isUIElement (trim text))"

definition acceptFallbackSpan :: "string \<Rightarrow> bool" where
  "acceptFallbackSpan text =
     (text \<noteq> [] \<and> trim text \<noteq> [] \<and>
      length (trim text) > 2 \<and>
      length (trim text) < 50 \<and>
      (isUpper (hd (trim text)) \<and> isLower (hd (tl (trim text)))) \<and>
      \<not> isUIElement (trim text) \<and>
      \<not> startsWithMonth (trim text))"

text \<open>The loop over the elements a selector matches, and the loop over the selectors;
  an element that cannot be read is skipped, and so is a selector whose query throws.\<close>

fun nameFromElements :: "(string \<Rightarrow> bool) \<Rightarrow> string option attempt list \<Rightarrow> string option" where
  "nameFromElements accept [] = None"
| "nameFromElements accept (Threw # rest) = nameFromElements accept rest"
| "nameFromElements accept (Got text # rest) =
     (if accept (orEmpty text) then Some (trim (orEmpty text))
      else nameFromElements accept rest)"

fun nameFromSelectors ::
  "(string \<Rightarrow> string option attempt list attempt) \<Rightarrow> string list \<Rightarrow> string option" where
  "nameFromSelectors texts [] = None"
| "nameFromSelectors texts (selector # rest) =
     (case texts selector of
        Threw \<Rightarrow> nameFromSelectors texts rest
      | Got elements \<Rightarrow>
          (case nameFromElements acceptNameElement elements of
             Some name \<Rightarrow> Some name
           | None \<Rightarrow> nameFromSelectors texts rest))"

text \<open>\<^verbatim>\<open>extractReviewerName\<close>: the four methods in turn, then \<^verbatim>\<open>Anonymous\<close>.\<close>

definition extractReviewerName :: "reviewCard \<Rightarrow> string" where
  "extractReviewerName c =
     (case (case profileLinkSpans c of Threw \<Rightarrow> None | Got spans \<Rightarrow> nameFromProfileLinks spans) of
        Some name \<Rightarrow> name
      | None \<Rightarrow>
     (case nameFromWroteAReview (wroteAReviewAuthor c) of
        Some name \<Rightarrow> name
      | None \<Rightarrow>
     (case nameFromSelectors (elementTexts c) nameSelectors of
        Some name \<Rightarrow> name
      | None \<Rightarrow>
     (case (case elementTexts c ''span'' of
              Threw \<Rightarrow> None
            | Got spans \<Rightarrow> nameFromElements acceptFallbackSpan spans) of
        Some name \<Rightarrow> name
      | None \<Rightarrow> ''Anonymous''))))"

subsection \<open>Title, text and date\<close>

text \<open>
  The three extractors run the same loop over their selectors: the text of the first
  matching element is read inside \<^verbatim>\<open>try\<close>, and the first text that passes the test is
  returned trimmed; the default is the empty string.
\<close>

fun firstAcceptedText ::
  "(string \<Rightarrow> bool) \<Rightarrow> (string \<Rightarrow> string option attempt) \<Rightarrow> string list \<Rightarrow> string" where
  "firstAcceptedText accept texts [] = []"
| "firstAcceptedText accept texts (selector # rest) =
     (case texts selector of
        Threw \<Rightarrow> firstAcceptedText accept texts rest
      | Got text \<Rightarrow>
          if accept (orEmpty text) then trim (orEmpty text)
          else firstAcceptedText accept texts rest)"

definition titleSelectors :: "string list" where
  "titleSelectors =
     [''[data-test-target=\"review-title\"]'',
      ''[data-test-target=\"review-title\"] a'',
      ''[data-test-target=\"review-title\"] span'',
      ''h1'', ''h2'', ''h3'', ''h4'', ''h5'', ''h6'',
      ''a[href*=\"ShowUserReviews\"]'',
      ''a[href*=\"Reviews\"] span'',
      ''span:text-matches(\".{10,100}\")'']"

definition acceptTitle :: "string \<Rightarrow> bool" where
  "acceptTitle text = (text \<noteq> [] \<and> length (trim text) > 5 \<and> length (trim text) < 200)"

definition extractReviewTitle :: "reviewCard \<Rightarrow> string" where
  "extractReviewTitle c = firstAcceptedText acceptTitle (firstText c) titleSelectors"

definition textSelectors :: "string list" where
  "textSelectors =
     [''[data-automation*=\"reviewText\"]'',
      ''[data-automation^=\"reviewText\"]'',
      ''span:text-matches(\".{50,}\")'',
      ''div:has-text(\"Read more\")'',
      ''div:text-matches(\".{100,}\")'',
      '':text-matches(\".{80,}\")'']"

definition acceptText :: "string \<Rightarrow> bool" where
  "acceptText text = (text \<noteq> [] \<and> length (trim text) > 20)"

definition extractReviewText :: "reviewCard \<Rightarrow> string" where
  "extractReviewText c = firstAcceptedText acceptText (firstText c) textSelectors"

definition dateSelectors :: "string list" where
  "dateSelectors =
     [''text=\"Date of stay:\" >> xpath=following-sibling::span'',
      '':text(\"Date of stay:\") + span'',
      ''div:has-text(\"Date of stay:\") span:last-child'',
      ''span:text-matches(\"(January|February|March|April|May|June|July|August|September|October|November|December) ''
        @ [CHR 0x5C] @ ''d{4}\")'',
      ''span:text-matches(\"'' @ [CHR 0x5C] @ ''w+ '' @ [CHR 0x5C] @ ''d{4}\")'',
      ''span:text-matches(\"'' @ [CHR 0x5C] @ ''d{4}\")'']"

definition acceptDate :: "string \<Rightarrow> bool" where
  "acceptDate text =
     (text \<noteq> [] \<and> trim text \<noteq> [] \<and>
      \<not> includesStr text ''contributions'' \<and> \<not> includesStr text ''helpful votes'')"

definition extractReviewDate :: "reviewCard \<Rightarrow> string" where
  "extractReviewDate c = firstAcceptedText acceptDate (firstText c) dateSelectors"

section \<open>Processing one card\<close>

text \<open>
  The review id: the attribute \<^verbatim>\<open>data-reviewid\<close>; else the attribute \<^verbatim>\<open>id\<close> when it
  contains \<^verbatim>\<open>review\<close>; else a generated id made of the index and the first twenty
  characters of the card's text, each character outside \<^verbatim>\<open>[a-zA-Z0-9]\<close> replaced by an
  underscore. \<open>Threw\<close> when one of the reads throws.
\<close>

definition resolveReviewId :: "reviewCard \<Rightarrow> nat \<Rightarrow> string attempt" where
  "resolveReviewId c index =
     (case dataReviewid c of
        Threw \<Rightarrow> Threw
      | Got attr \<Rightarrow>
          if orEmpty attr \<noteq> [] then Got (orEmpty attr)
          else (case idAttribute c of
            Threw \<Rightarrow> Threw
          | Got idAttr \<Rightarrow>
              if includesStr (orEmpty idAttr) ''review'' then Got (orEmpty idAttr)
              else (case cardTextContent c of
                Threw \<Rightarrow> Threw
              | Got cardText \<Rightarrow>
                  Got (''generated_'' @ showNat index @ ''_'' @
                    map sanitizeChar (take 20 (orEmpty cardText))))))"

text \<open>The review built from the extracted fields.\<close>

definition newReviewOf :: "string \<Rightarrow> reviewCard \<Rightarrow> Review" where
  "newReviewOf i c =
     \<lparr>reviewId = i,
      reviewerName = trim (extractReviewerName c),
      reviewerLocation = None,
      rating = extractRatingFromCard (ratingQueries c),
      reviewTitle = trim (extractReviewTitle c),
      reviewText = trim (extractReviewText c),
      reviewDate = trim (extractReviewDate c),
      helpfulVotes = Some 0,
      totalVotes = None,
      isVerified = Some False,
      tripType = None,
      stayDate = None\<rparr>"

text \<open>
  \<^verbatim>\<open>processSingleReviewCard\<close>, on the cache \<^verbatim>\<open>this.cache\<close> (\<open>None\<close> for \<^verbatim>\<open>null\<close>): the value
  returned and the cache afterwards. When \<^verbatim>\<open>hasReview\<close> holds for the id, what
  \<^verbatim>\<open>getReview\<close> returns is returned as it is. Whatever throws is caught and \<^verbatim>\<open>null\<close> is
  returned.
\<close>

definition processSingleReviewCard ::
  "reviewCard \<Rightarrow> nat \<Rightarrow> nat \<Rightarrow> CacheData option \<Rightarrow> reviewValue \<times> CacheData option" where
  "processSingleReviewCard c index totalCards cache =
     (case resolveReviewId c index of
        Threw \<Rightarrow> (NullValue, cache)
      | Got i \<Rightarrow>
          if cache \<noteq> None \<and> hasReview i (the cache) then (getReview i (the cache), cache)
          else if extractReviewerName c \<noteq> [] \<and>
                  (extractReviewText c \<noteq> [] \<or> extractReviewTitle c \<noteq> [])
            then (ReviewObject (newReviewOf i c), map_option (addReview (newReviewOf i c)) cache)
            else (NullValue, cache))"

text \<open>A card for the examples.\<close>

definition sampleCard :: reviewCard where
  "sampleCard =
     \<lparr>dataReviewid = Got (Some ''987654321''),
      idAttribute = Got None,
      cardTextContent = Got (Some ''Maria wrote a review May 2024 Wonderful stay''),
      profileLinkSpans = Got [Got (Some '' Maria G '')],
      wroteAReviewAuthor = Threw,
      elementTexts = (\<lambda>selector. Threw),
      firstText = (\<lambda>selector.
        if selector = ''[data-test-target=\"review-title\"]'' then Got (Some '' Wonderful stay '')
        else Threw),
      ratingQueries = titledCard ''5 of 5 bubbles'' 5\<rparr>"

section \<open>Scraping a list of URLs\<close>























section \<open>Properties of the review cache\<close>

text \<open>An id that the object \<^verbatim>\<open>reviews\<close> does not inherit is not \<^verbatim>\<open>__proto__\<close>, so assigning a
  review to it sets an own property; and \<^verbatim>\<open>addReviews\<close> and repeated \<^verbatim>\<open>addReview\<close> then add
  exactly the non-empty ids and leave the prototype as it was.\<close>

lemma not_inherited_proto: "\<not> inheritsProperty obj i \<Longrightarrow> i \<noteq> ''__proto__''"
  by (auto simp: inheritsProperty_def objectPrototypeNames_def)

lemma addReview_not_inherited:
  "\<not> inheritsProperty (reviews c) (reviewId r) \<Longrightarrow> reviewId r \<noteq> [] \<Longrightarrow>
     reviews (addReview r c) =
       (reviews c)\<lparr>ownProperties := fmupd (reviewId r) r (ownProperties (reviews c))\<rparr>"
  by (simp add: addReview_def assignReview_def not_inherited_proto)

lemma addReview_dom:
  "\<not> inheritsProperty (reviews c) (reviewId r) \<Longrightarrow>
     fmdom' (ownProperties (reviews (addReview r c))) =
       (if reviewId r \<noteq> [] then insert (reviewId r) (fmdom' (ownProperties (reviews c)))
        else fmdom' (ownProperties (reviews c))) \<and>
     prototypeReview (reviews (addReview r c)) = prototypeReview (reviews c)"
proof (cases "reviewId r = []")
  case True
  then show ?thesis by (simp add: addReview_def)
next
  case False
  assume "\<not> inheritsProperty (reviews c) (reviewId r)"
  then have "reviewId r \<noteq> ''__proto__''" by (rule not_inherited_proto)
  with False show ?thesis by (simp add: addReview_def assignReview_def)
qed

lemma addReviews_loop_dom:
  "\<forall>r\<in>set rs. \<not> inheritsProperty (reviews c) (reviewId r) \<Longrightarrow>
     fmdom' (ownProperties (reviews (fst (addReviews_loop rs (c, n))))) =
       fmdom' (ownProperties (reviews c)) \<union> truthy_identities rs \<and>
     prototypeReview (reviews (fst (addReviews_loop rs (c, n)))) = prototypeReview (reviews c)"
proof (induction rs arbitrary: c n)
  case Nil
  show ?case by (simp add: truthy_identities_def)
next
  case (Cons r rs)
  from Cons.prems have here: "\<not> inheritsProperty (reviews c) (reviewId r)" by simp
  note a = addReview_dom [OF here]
  have rest: "\<forall>x\<in>set rs. \<not> inheritsProperty (reviews (addReview r c)) (reviewId x)"
    using Cons.prems a by (simp add: inheritsProperty_def)
  have rest': "\<forall>x\<in>set rs. \<not> inheritsProperty (reviews c) (reviewId x)"
    using Cons.prems by simp
  show ?case
  proof (cases "reviewId r \<noteq> [] \<and> \<not> hasReview (reviewId r) c")
    case True
    then have step: "addReviews_loop (r # rs) (c, n) = addReviews_loop rs (addReview r c, n + 1)"
      by simp
    from True a have "fmdom' (ownProperties (reviews (addReview r c))) =
        insert (reviewId r) (fmdom' (ownProperties (reviews c)))"
      and "prototypeReview (reviews (addReview r c)) = prototypeReview (reviews c)"
      by simp_all
    with Cons.IH [OF rest, of "n + 1"] True show ?thesis
      unfolding step by (auto simp: truthy_identities_def)
  next
    case False
    then have step: "addReviews_loop (r # rs) (c, n) = addReviews_loop rs (c, n)"
      by auto
    from False here have "reviewId r = [] \<or> reviewId r \<in> fmdom' (ownProperties (reviews c))"
      by (auto simp: hasReview_def)
    with Cons.IH [OF rest', of n] show ?thesis
      unfolding step by (auto simp: truthy_identities_def)
  qed
qed

lemma fold_addReview_dom:
  "\<forall>r\<in>set rs. \<not> inheritsProperty (reviews c) (reviewId r) \<Longrightarrow>
     fmdom' (ownProperties (reviews (fold addReview rs c))) =
       fmdom' (ownProperties (reviews c)) \<union> truthy_identities rs \<and>
     prototypeReview (reviews (fold addReview rs c)) = prototypeReview (reviews c)"
proof (induction rs arbitrary: c)
  case Nil
  show ?case by (simp add: truthy_identities_def)
next
  case (Cons r rs)
  from Cons.prems have here: "\<not> inheritsProperty (reviews c) (reviewId r)" by simp
  note a = addReview_dom [OF here]
  have rest: "\<forall>x\<in>set rs. \<not> inheritsProperty (reviews (addReview r c)) (reviewId x)"
    using Cons.prems a by (simp add: inheritsProperty_def)
  show ?case
    using Cons.IH [OF rest] a
    by (auto simp: truthy_identities_def)
qed

text \<open>
  C10. A review whose id is the empty string (the only falsy value of a string) leaves
  the cache as it was: \<^verbatim>\<open>addReview\<close> returns the same cache, so its review map, its size
  and its other fields are unchanged.
\<close>

theorem addReview_falsy_id_noop:
  "reviewId r = [] \<Longrightarrow>
     addReview r c = c \<and> getCachedReviewCount (addReview r c) = getCachedReviewCount c"
  by (simp add: addReview_def)

theorem addReview_falsy_id_noop_witness:
  "reviewId (mkReview []) = [] \<and>
   addReview (mkReview []) (addReview (mkReview ''r1'') (freshCache ''t0'' ''u'')) =
     addReview (mkReview ''r1'') (freshCache ''t0'' ''u'') \<and>
   getCachedReviewCount
     (addReview (mkReview []) (addReview (mkReview ''r1'') (freshCache ''t0'' ''u''))) = 1"
proof -
  have e: "reviewId (mkReview []) = []" by (simp add: mkReview_def)
  have n: "getCachedReviewCount (addReview (mkReview ''r1'') (freshCache ''t0'' ''u'')) = 1"
    by (simp add: getCachedReviewCount_def addReview_def assignReview_def mkReview_def
        freshCache_def)
  show ?thesis
    using addReview_falsy_id_noop [OF e, of "addReview (mkReview ''r1'') (freshCache ''t0'' ''u'')"] e n
    by simp
qed

text \<open>
  C4 (as amended). Merging two sequences of reviews into one cache, by \<^verbatim>\<open>addReviews\<close> or
  by \<^verbatim>\<open>addReview\<close> one at a time, when none of their ids is a name that the object
  \<^verbatim>\<open>reviews\<close> inherits from its prototype (the members of \<^verbatim>\<open>Object.prototype\<close>, such as
  \<^verbatim>\<open>toString\<close>, \<^verbatim>\<open>constructor\<close> and \<^verbatim>\<open>__proto__\<close>), leaves as many entries as there are distinct
  ids among the ids the cache held and the non-empty ids of the two sequences; from an
  empty cache that is the cardinality of the union of the two sets of non-empty ids. The
  map of own properties holds one entry for an id by construction.
\<close>

theorem merged_count_is_union_of_truthy_identities:
  assumes "\<forall>i\<in>identities xs \<union> identities ys. \<not> inheritsProperty (reviews c) i"
  shows "getCachedReviewCount (fst (addReviews ys (fst (addReviews xs c)))) =
       card (fmdom' (ownProperties (reviews c)) \<union> truthy_identities xs \<union> truthy_identities ys) \<and>
     getCachedReviewCount (fold addReview ys (fold addReview xs c)) =
       card (fmdom' (ownProperties (reviews c)) \<union> truthy_identities xs \<union> truthy_identities ys) \<and>
     (ownProperties (reviews c) = fmempty \<longrightarrow>
        getCachedReviewCount (fst (addReviews ys (fst (addReviews xs c)))) =
          card (truthy_identities xs \<union> truthy_identities ys))"
proof -
  from assms have x: "\<forall>r\<in>set xs. \<not> inheritsProperty (reviews c) (reviewId r)"
    and y: "\<forall>r\<in>set ys. \<not> inheritsProperty (reviews c) (reviewId r)"
    by (auto simp: identities_def)
  note ax = addReviews_loop_dom [OF x, of 0]
  from y ax have y': "\<forall>r\<in>set ys.
      \<not> inheritsProperty (reviews (fst (addReviews_loop xs (c, 0)))) (reviewId r)"
    by (simp add: inheritsProperty_def)
  note ay = addReviews_loop_dom [OF y', of 0]
  note fx = fold_addReview_dom [OF x]
  from y fx have fy': "\<forall>r\<in>set ys. \<not> inheritsProperty (reviews (fold addReview xs c)) (reviewId r)"
    by (simp add: inheritsProperty_def)
  note fy = fold_addReview_dom [OF fy']
  have one: "fmdom' (ownProperties (reviews (fst (addReviews ys (fst (addReviews xs c)))))) =
      fmdom' (ownProperties (reviews c)) \<union> truthy_identities xs \<union> truthy_identities ys"
    unfolding addReviews_def using ax ay by simp
  have two: "fmdom' (ownProperties (reviews (fold addReview ys (fold addReview xs c)))) =
      fmdom' (ownProperties (reviews c)) \<union> truthy_identities xs \<union> truthy_identities ys"
    using fx fy by simp
  show ?thesis
    unfolding getCachedReviewCount_def one two by simp
qed

theorem merged_count_is_union_of_truthy_identities_witness:
  "identities [mkReview ''r1'', mkReview ''r2''] \<inter> identities [mkReview ''r2'', mkReview ''r3''] =
     {''r2''} \<and>
   getCachedReviewCount
     (fst (addReviews [mkReview ''r2'', mkReview ''r3'']
        (fst (addReviews [mkReview ''r1'', mkReview ''r2''] (freshCache ''t0'' ''u''))))) = 3 \<and>
   card (truthy_identities [mkReview ''r1'', mkReview ''r2''] \<union>
         truthy_identities [mkReview ''r2'', mkReview ''r3'']) = 3"
proof -
  have h: "\<forall>i\<in>identities [mkReview ''r1'', mkReview ''r2''] \<union>
      identities [mkReview ''r2'', mkReview ''r3''].
      \<not> inheritsProperty (reviews (freshCache ''t0'' ''u'')) i"
    by (simp add: identities_def mkReview_def inheritsProperty_def objectPrototypeNames_def
        freshCache_def)
  have e: "ownProperties (reviews (freshCache ''t0'' ''u'')) = fmempty"
    by (simp add: freshCache_def)
  have c: "card (truthy_identities [mkReview ''r1'', mkReview ''r2''] \<union>
         truthy_identities [mkReview ''r2'', mkReview ''r3'']) = 3"
    by (simp add: truthy_identities_def mkReview_def card_insert_if)
  have i: "identities [mkReview ''r1'', mkReview ''r2''] \<inter>
      identities [mkReview ''r2'', mkReview ''r3''] = {''r2''}"
    by (simp add: identities_def mkReview_def)
  from merged_count_is_union_of_truthy_identities [OF h] e c i show ?thesis by simp
qed

text \<open>
  C4 as stated fails when a review has the empty id: the sequences
  \<^verbatim>\<open>[{id: 'r1'}, {id: ''}]\<close> and \<^verbatim>\<open>[{id: 'r1'}]\<close> overlap (in \<^verbatim>\<open>'r1'\<close>), the union of their
  identity sets has two members, and the cache ends with one entry.
\<close>

theorem merged_count_counterexample:
  "identities [mkReview ''r1'', mkReview []] \<inter> identities [mkReview ''r1''] = {''r1''} \<and>
   card (identities [mkReview ''r1'', mkReview []] \<union> identities [mkReview ''r1'']) = 2 \<and>
   getCachedReviewCount
     (fst (addReviews [mkReview ''r1'']
        (fst (addReviews [mkReview ''r1'', mkReview []] (freshCache ''t0'' ''u''))))) = 1"
  by (simp add: identities_def mkReview_def getCachedReviewCount_def addReviews_def
      addReview_def assignReview_def hasReview_def inheritsProperty_def objectPrototypeNames_def
      freshCache_def)

text \<open>
  What the amended claim leaves aside: \<^verbatim>\<open>hasReview\<close> holds for an inherited name, so
  \<^verbatim>\<open>addReviews\<close> skips a review whose id is \<^verbatim>\<open>toString\<close>; and \<^verbatim>\<open>addReview\<close> of a review whose id
  is \<^verbatim>\<open>__proto__\<close> adds no entry and makes that review the prototype of the object.
\<close>

lemma inherited_ids_are_skipped:
  "getCachedReviewCount
     (fst (addReviews [mkReview ''toString'', mkReview ''r1''] (freshCache ''t0'' ''u''))) = 1 \<and>
   getCachedReviewCount (addReview (mkReview ''__proto__'') (freshCache ''t0'' ''u'')) = 0 \<and>
   prototypeReview (reviews (addReview (mkReview ''__proto__'') (freshCache ''t0'' ''u''))) =
     Some (mkReview ''__proto__'')"
  by (simp add: mkReview_def getCachedReviewCount_def addReviews_def
      addReview_def assignReview_def hasReview_def inheritsProperty_def objectPrototypeNames_def
      freshCache_def)

section \<open>Properties of the pagination driver\<close>

text \<open>
  C5. On a page whose next-page arrow is visible, enabled and linked, and where the click
  succeeds but the page that loads shows no review card and no new content,
  \<^verbatim>\<open>navigateToNextPage\<close> returns \<^verbatim>\<open>true\<close>: it returns right after the click and never looks at
  the page that loaded.
\<close>

theorem navigateToNextPage_true_on_dead_end:
  "navigateToNextPage (Some deadEndPage) = True \<and>
   clickAndWait (deadEndPage (hd nextPageSelectors)) =
     Got \<lparr>cardCount = 0, contentChanged = False\<rparr>"
  by (simp add: nextPageSelectors_def deadEndPage_def)

text \<open>More generally, the verdict does not depend on the page that loads after the
  click.\<close>

lemma tryNextButtons_ignores_loaded_page:
  "tryNextButtons (\<lambda>selector. (locator selector)
       \<lparr>clickAndWait := map_attempt f (clickAndWait (locator selector))\<rparr>) selectors =
     tryNextButtons locator selectors"
  by (induction selectors) (auto split: attempt.splits)

section \<open>Properties of the card locator\<close>

lemma searchInside_find:
  "searchInside doc container inners =
     (case find (yieldsMany doc container) inners of
        Some innerSelector \<Rightarrow> childrenOf doc container innerSelector
      | None \<Rightarrow> [])"
  by (induction inners) (auto simp: yieldsMany_def childrenOf_def split: attempt.splits)

lemma searchInside_many:
  "length (searchInside doc container inners) > 1 \<longleftrightarrow>
     find (yieldsMany doc container) inners \<noteq> None"
proof (induction inners)
  case Nil
  show ?case by simp
next
  case (Cons i inners)
  then show ?case
    by (auto simp: yieldsMany_def childrenOf_def split: attempt.splits)
qed

lemma findCards_specified:
  "findCards doc selectors = specifiedCards doc selectors innerSelectors"
proof (induction selectors)
  case Nil
  show ?case by (simp add: specifiedCards_def)
next
  case (Cons selector rest)
  show ?case
  proof (cases "serves doc selector")
    case False
    have "findCards doc (selector # rest) = findCards doc rest"
    proof (cases "queryAll doc selector")
      case Threw
      then show ?thesis by simp
    next
      case (Got cards)
      then have m: "matchesOf doc selector = cards" by (simp add: matchesOf_def)
      show ?thesis
      proof (cases "cards = []")
        case True
        with Got show ?thesis by simp
      next
        case ne: False
        with False m have "length cards = 1" and
          "getId doc (hd cards) = Threw \<or> textContent doc (hd cards) = Threw"
          by (auto simp: serves_def yieldsMatch_def split: if_splits)
        with Got ne show ?thesis by (auto split: attempt.splits)
      qed
    qed
    with False Cons.IH show ?thesis by (simp add: specifiedCards_def)
  next
    case True
    then obtain cards where q: "queryAll doc selector = Got cards" and ne: "cards \<noteq> []"
      by (auto simp: serves_def yieldsMatch_def matchesOf_def split: attempt.splits)
    have m: "matchesOf doc selector = cards" using q by (simp add: matchesOf_def)
    have "findCards doc (selector # rest) = cardsOfSelector doc innerSelectors selector"
    proof (cases "length cards = 1")
      case False
      with q ne m show ?thesis by (simp add: cardsOfSelector_def)
    next
      case one: True
      with True m obtain cardId cardText where
        i: "getId doc (hd cards) = Got cardId" and t: "textContent doc (hd cards) = Got cardText"
        by (auto simp: serves_def) (metis attempt.exhaust)
      show ?thesis
        using q ne m one i t searchInside_many [of doc "hd cards" innerSelectors]
        by (auto simp: cardsOfSelector_def recognisedContainer_def searchInside_find
            split: option.splits)
    qed
    with True show ?thesis by (simp add: specifiedCards_def)
  qed
qed

text \<open>
  C6 (as amended). The card locator uses the first selector of its fixed ordered list
  that serves: its query returns at least one match and, when it returns exactly one, the
  reads of that match's id and text do not throw (a selector whose query or reads throw is
  skipped). When that selector returns exactly one match recognised as a container (by
  its id or by the sentinel \<^verbatim>\<open>FiltersEnglish\<close> in its text), the result is what the first
  child selector yielding more than one match finds inside it, and the container itself
  if there is none. When no selector serves, the result is empty.
\<close>

theorem locateCards_first_serving_selector:
  "locateCards doc = specifiedCards doc reviewCardSelectors innerSelectors"
  by (simp add: locateCards_def findCards_specified)

theorem locateCards_first_serving_selector_witness:
  "find (serves containerDocument) reviewCardSelectors = Some ''.review-container'' \<and>
   recognisedContainer containerDocument 0 \<and>
   locateCards containerDocument = [2, 3, 4]"
proof -
  have f: "find (serves containerDocument) reviewCardSelectors = Some ''.review-container''"
    by (simp add: reviewCardSelectors_def containerDocument_def serves_def yieldsMatch_def
        matchesOf_def)
  have r: "recognisedContainer containerDocument 0"
    by (simp add: recognisedContainer_def containerDocument_def isContainer_def)
  have m: "matchesOf containerDocument ''.review-container'' = [0]"
    by (simp add: matchesOf_def containerDocument_def)
  have c: "cardsOfSelector containerDocument innerSelectors ''.review-container'' = [2, 3, 4]"
    using r
    by (simp add: cardsOfSelector_def m innerSelectors_def yieldsMany_def childrenOf_def)
      (simp add: containerDocument_def)
  from locateCards_first_serving_selector [of containerDocument] f r c show ?thesis
    by (simp add: specifiedCards_def)
qed

text \<open>
  C6 as stated fails when the reads on a single match throw: in \<open>detachedDocument\<close> the
  first selector of the list yields one match, and the cards returned are the two matches
  of the second selector.
\<close>

theorem locateCards_counterexample:
  "find (yieldsMatch detachedDocument) reviewCardSelectors = Some ''[data-reviewid]'' \<and>
   matchesOf detachedDocument ''[data-reviewid]'' = [0] \<and>
   locateCards detachedDocument = [1, 2]"
  by (simp add: locateCards_def reviewCardSelectors_def detachedDocument_def yieldsMatch_def
      matchesOf_def)

section \<open>Properties of loading the cache file\<close>

text \<open>
  C7. When the cache file holds the JSON text \<^verbatim>\<open>null\<close>, \<^verbatim>\<open>loadCache\<close> throws to its caller:
  \<^verbatim>\<open>this.cache\<close> is \<^verbatim>\<open>null\<close> when the log line reads \<^verbatim>\<open>this.cache.reviews\<close>, and still \<^verbatim>\<open>null\<close> when
  the \<^verbatim>\<open>catch\<close> block reads \<^verbatim>\<open>this.cache.hotelUrl\<close>, outside any \<^verbatim>\<open>try\<close>.
\<close>

theorem loadCache_throws_on_null_file:
  "loadCache now (Parsed JNull) (constructedCache t0 u) = (Threw, [ErrorLoadingCache])"
  by (simp add: startFresh_def)

text \<open>Every other state of the file makes \<^verbatim>\<open>loadCache\<close> return.\<close>

lemma loadCache_returns_otherwise:
  "f \<noteq> Parsed JNull \<Longrightarrow> f \<noteq> Parsed JUndefined \<Longrightarrow>
     \<exists>loaded. fst (loadCache now f (constructedCache t0 u)) = Got loaded"
proof (cases f)
  case (Parsed parsed)
  assume "f \<noteq> Parsed JNull" and "f \<noteq> Parsed JUndefined"
  with Parsed have "parsed \<noteq> JNull" and "parsed \<noteq> JUndefined" by simp_all
  then obtain v where "getProperty parsed ''hotelUrl'' = Got v"
    by (cases parsed) simp_all
  with Parsed show ?thesis
    by (simp add: startFresh_def split: attempt.splits)
qed (simp_all add: startFresh_def constructedCache_def)

section \<open>Properties of scraping a list of URLs\<close>















section \<open>Properties of the rating\<close>

text \<open>
  C9. A card whose \<^verbatim>\<open>svg\<close> title reads \<^verbatim>\<open>10 of 10 bubbles\<close> gets the rating 10: method 1
  returns the number it parses without comparing it with 5 (only the count of method 3
  is compared). And a title that reads \<^verbatim>\<open>5.0 of 5 bubbles\<close> makes the expression match
  \<^verbatim>\<open>0 of 5 bubble\<close>, so method 1 returns 0 at once, on a card where counting the five
  filled bubbles would have given 5.
\<close>

theorem extractRatingFromCard_out_of_range:
  "extractRatingFromCard (titledCard ''10 of 10 bubbles'' 4) = 10 \<and>
   extractRatingFromCard (titledCard ''5.0 of 5 bubbles'' 5) = 0 \<and>
   ratingFromBubbleCount (titledCard ''5.0 of 5 bubbles'' 5) = 5"
  by (simp add: extractRatingFromCard_def titledCard_def ratingOfTitle_def startsWith_def
      bubbleMatchAt_def isDigit_def isSpace_def toLowerCase_def lowerChar_def parseInt_def
      digitValue_def ratingFromBubbleCount_def)

text \<open>What does hold: the third method stays within 0 to 5.\<close>

lemma ratingFromBubbleCount_range: "ratingFromBubbleCount c \<le> 5"
  by (simp add: ratingFromBubbleCount_def split: attempt.splits)

section \<open>Properties of processing one card\<close>

text \<open>Trimming twice is trimming once, and every extractor returns a trimmed string.\<close>

lemma trimEnd_idem: "trimEnd (trimEnd s) = trimEnd s"
  by (simp add: trimEnd_def dropWhile_idem)

lemma trimEnd_append_spaces: "\<exists>ws. s = trimEnd s @ ws"
proof -
  have "rev s = takeWhile isSpace (rev s) @ dropWhile isSpace (rev s)" by simp
  then have "s = rev (dropWhile isSpace (rev s)) @ rev (takeWhile isSpace (rev s))"
    by (metis rev_append rev_rev_ident)
  then show ?thesis by (auto simp: trimEnd_def)
qed

lemma hd_trimEnd: "trimEnd s \<noteq> [] \<Longrightarrow> hd (trimEnd s) = hd s"
  using trimEnd_append_spaces [of s] by (metis hd_append2)

lemma dropWhile_hd_id: "s \<noteq> [] \<Longrightarrow> \<not> P (hd s) \<Longrightarrow> dropWhile P s = s"
  by (cases s) simp_all

lemma trim_empty: "trim [] = []"
  by (simp add: trim_def trimEnd_def)

lemma trim_idem: "trim (trim s) = trim s"
proof (cases "trim s = []")
  case True
  then show ?thesis by (simp add: trim_empty)
next
  case False
  let ?t = "dropWhile isSpace s"
  from False have ne: "trimEnd ?t \<noteq> []" by (simp add: trim_def)
  have t: "?t \<noteq> []"
  proof
    assume "?t = []"
    then have "trimEnd ?t = trimEnd []" by (rule arg_cong)
    with ne show False by (simp add: trimEnd_def)
  qed
  then have "\<not> isSpace (hd ?t)" by (rule hd_dropWhile)
  with hd_trimEnd [OF ne] have "\<not> isSpace (hd (trimEnd ?t))" by simp
  with ne have "dropWhile isSpace (trimEnd ?t) = trimEnd ?t" by (rule dropWhile_hd_id)
  then show ?thesis by (simp add: trim_def trimEnd_idem)
qed

lemma trim_Anonymous: "trim ''Anonymous'' = ''Anonymous''"
  by (simp add: trim_def trimEnd_def isSpace_def)

lemma nameFromProfileLinks_trimmed:
  "nameFromProfileLinks spans = Some name \<Longrightarrow> name \<noteq> [] \<and> trim name = name"
  by (induction spans rule: nameFromProfileLinks.induct)
    (auto simp: acceptProfileSpan_def trim_idem split: if_splits)

lemma nameFromElements_trimmed:
  "(\<And>t. accept t \<Longrightarrow> trim t \<noteq> []) \<Longrightarrow> nameFromElements accept els = Some name \<Longrightarrow>
     name \<noteq> [] \<and> trim name = name"
  by (induction accept els rule: nameFromElements.induct)
    (auto simp: trim_idem split: if_splits)

lemma nameFromElements_name_trimmed:
  "nameFromElements acceptNameElement els = Some name \<Longrightarrow> name \<noteq> [] \<and> trim name = name"
  by (rule nameFromElements_trimmed [of acceptNameElement]) (simp_all add: acceptNameElement_def)

lemma nameFromElements_fallback_trimmed:
  "nameFromElements acceptFallbackSpan els = Some name \<Longrightarrow> name \<noteq> [] \<and> trim name = name"
  by (rule nameFromElements_trimmed [of acceptFallbackSpan]) (simp_all add: acceptFallbackSpan_def)

lemma nameFromSelectors_trimmed:
  "nameFromSelectors texts sels = Some name \<Longrightarrow> name \<noteq> [] \<and> trim name = name"
proof (induction sels)
  case Nil
  then show ?case by simp
next
  case (Cons sel sels)
  show ?case
  proof (cases "texts sel")
    case Threw
    with Cons show ?thesis by simp
  next
    case (Got elements)
    show ?thesis
    proof (cases "nameFromElements acceptNameElement elements")
      case None
      with Got Cons show ?thesis by simp
    next
      case (Some n)
      with Got Cons.prems have "n = name" by simp
      with Some nameFromElements_name_trimmed show ?thesis by blast
    qed
  qed
qed

lemma nameFromWroteAReview_trimmed:
  "nameFromWroteAReview author = Some name \<Longrightarrow> name \<noteq> [] \<and> trim name = name"
  by (auto simp: nameFromWroteAReview_def trim_idem split: attempt.splits if_splits)

lemma extractReviewerName_trimmed:
  "extractReviewerName c \<noteq> [] \<and> trim (extractReviewerName c) = extractReviewerName c"
proof -
  let ?ok = "\<lambda>name. name \<noteq> [] \<and> trim name = name"
  have m1: "?ok name"
    if "(case profileLinkSpans c of Threw \<Rightarrow> None | Got spans \<Rightarrow> nameFromProfileLinks spans) = Some name"
    for name
    using that nameFromProfileLinks_trimmed by (auto split: attempt.splits)
  have m4: "?ok name"
    if "(case elementTexts c ''span'' of Threw \<Rightarrow> None
         | Got spans \<Rightarrow> nameFromElements acceptFallbackSpan spans) = Some name"
    for name
    using that nameFromElements_fallback_trimmed by (auto split: attempt.splits)
  have d: "?ok ''Anonymous''" by (simp add: trim_Anonymous)
  show ?thesis
    unfolding extractReviewerName_def
    using m1 m4 d nameFromWroteAReview_trimmed [of "wroteAReviewAuthor c"]
      nameFromSelectors_trimmed [of "elementTexts c" nameSelectors]
    by (simp split: option.splits)
qed

lemma firstAcceptedText_trimmed:
  "trim (firstAcceptedText accept texts sels) = firstAcceptedText accept texts sels"
  by (induction sels) (auto simp: trim_idem trim_empty split: attempt.splits)

lemma newReviewOf_fields:
  "reviewId (newReviewOf i c) = i \<and>
   reviewerName (newReviewOf i c) = extractReviewerName c \<and>
   reviewTitle (newReviewOf i c) = extractReviewTitle c \<and>
   reviewText (newReviewOf i c) = extractReviewText c"
  by (simp add: newReviewOf_def extractReviewerName_trimmed extractReviewTitle_def
      extractReviewText_def firstAcceptedText_trimmed)

lemma processSingleReviewCard_cases:
  "processSingleReviewCard c index totalCards cache = (result, cache') \<Longrightarrow>
     cache' = cache \<or>
     (\<exists>i. resolveReviewId c index = Got i \<and> result = ReviewObject (newReviewOf i c) \<and>
        (cache \<noteq> None \<longrightarrow> \<not> hasReview i (the cache)) \<and>
        cache' = map_option (addReview (newReviewOf i c)) cache \<and>
        extractReviewerName c \<noteq> [] \<and>
        (extractReviewText c \<noteq> [] \<or> extractReviewTitle c \<noteq> []))"
  by (auto simp: processSingleReviewCard_def split: attempt.splits if_splits)

text \<open>
  C3. When \<^verbatim>\<open>processSingleReviewCard\<close> leaves in the cache an entry that was not there
  before, that entry is the review it has just extracted and returned, it passed the test
  \<^verbatim>\<open>reviewerName && (reviewText || reviewTitle)\<close>, and, the extractors returning trimmed
  strings, the stored \<^verbatim>\<open>reviewerName\<close> is not empty and the stored \<^verbatim>\<open>reviewTitle\<close> and
  \<^verbatim>\<open>reviewText\<close> are not both empty. The prototype of the object \<^verbatim>\<open>reviews\<close> is as it was.
\<close>

theorem processSingleReviewCard_inserts_only_valid:
  assumes "processSingleReviewCard c index totalCards (Some cache) = (result, Some cache')"
    and "fmlookup (ownProperties (reviews cache')) i = Some r"
    and "fmlookup (ownProperties (reviews cache)) i \<noteq> Some r"
  shows "result = ReviewObject r \<and> reviewId r = i \<and>
     reviewerName r = extractReviewerName c \<and> reviewTitle r = extractReviewTitle c \<and>
     reviewText r = extractReviewText c \<and>
     reviewerName r \<noteq> [] \<and> (reviewTitle r \<noteq> [] \<or> reviewText r \<noteq> []) \<and>
     prototypeReview (reviews cache') = prototypeReview (reviews cache)"
proof -
  from processSingleReviewCard_cases [OF assms(1)] assms(2,3)
  obtain j where j: "result = ReviewObject (newReviewOf j c)"
    and n: "\<not> hasReview j cache"
    and c': "cache' = addReview (newReviewOf j c) cache"
    and g: "extractReviewerName c \<noteq> []" "extractReviewText c \<noteq> [] \<or> extractReviewTitle c \<noteq> []"
    by auto
  from n have "\<not> inheritsProperty (reviews cache) (reviewId (newReviewOf j c))"
    by (simp add: hasReview_def newReviewOf_fields)
  then have p: "reviewId (newReviewOf j c) \<noteq> ''__proto__''" by (rule not_inherited_proto)
  from c' p have proto: "prototypeReview (reviews cache') = prototypeReview (reviews cache)"
    by (simp add: addReview_def assignReview_def)
  from c' p assms(2,3) have "i = j \<and> r = newReviewOf j c"
    by (auto simp: addReview_def assignReview_def newReviewOf_fields split: if_splits)
  with j g proto newReviewOf_fields [of j c] show ?thesis by auto
qed

lemma sample_name: "extractReviewerName sampleCard = ''Maria G''"
  by (simp add: extractReviewerName_def sampleCard_def acceptProfileSpan_def trim_def trimEnd_def
      isSpace_def startsWith_def)

lemma sample_title: "extractReviewTitle sampleCard = ''Wonderful stay''"
  by (simp add: extractReviewTitle_def sampleCard_def titleSelectors_def acceptTitle_def trim_def
      trimEnd_def isSpace_def)

lemma sample_text: "extractReviewText sampleCard = []"
  by (simp add: extractReviewText_def sampleCard_def textSelectors_def)

theorem processSingleReviewCard_inserts_only_valid_witness:
  "processSingleReviewCard sampleCard 3 10 (Some (freshCache ''t0'' ''u'')) =
     (ReviewObject (newReviewOf ''987654321'' sampleCard),
      Some (addReview (newReviewOf ''987654321'' sampleCard) (freshCache ''t0'' ''u''))) \<and>
   fmlookup (ownProperties (reviews
       (addReview (newReviewOf ''987654321'' sampleCard) (freshCache ''t0'' ''u''))))
     ''987654321'' = Some (newReviewOf ''987654321'' sampleCard) \<and>
   fmlookup (ownProperties (reviews (freshCache ''t0'' ''u''))) ''987654321'' = None \<and>
   reviewerName (newReviewOf ''987654321'' sampleCard) = ''Maria G'' \<and>
   reviewTitle (newReviewOf ''987654321'' sampleCard) = ''Wonderful stay'' \<and>
   reviewText (newReviewOf ''987654321'' sampleCard) = []"
proof -
  let ?r = "newReviewOf ''987654321'' sampleCard"
  let ?c = "freshCache ''t0'' ''u''"
  have i: "resolveReviewId sampleCard 3 = Got ''987654321''"
    by (simp add: resolveReviewId_def sampleCard_def)
  have h: "\<not> hasReview ''987654321'' ?c"
    by (simp add: hasReview_def inheritsProperty_def objectPrototypeNames_def freshCache_def)
  have p: "processSingleReviewCard sampleCard 3 10 (Some ?c) =
      (ReviewObject ?r, Some (addReview ?r ?c))"
    by (simp add: processSingleReviewCard_def i h sample_name sample_title)
  have l: "fmlookup (ownProperties (reviews (addReview ?r ?c))) ''987654321'' = Some ?r"
    by (simp add: addReview_def assignReview_def newReviewOf_def)
  have n: "fmlookup (ownProperties (reviews ?c)) ''987654321'' \<noteq> Some ?r"
    by (simp add: freshCache_def)
  from processSingleReviewCard_inserts_only_valid [OF p l n] p l
  show ?thesis by (simp add: sample_name sample_title sample_text freshCache_def)
qed

section \<open>Properties of the session loop\<close>

lemma addPage_full:
  "n \<noteq> 0 \<Longrightarrow> n \<le> int (length allReviews) \<Longrightarrow>
     addPage (Some n) page (allReviews, addedCount) = (allReviews, addedCount)"
  by (induction page) auto

lemma addPage_length:
  "0 < n \<Longrightarrow> int (length allReviews) \<le> n \<Longrightarrow>
     int (length (fst (addPage (Some n) page (allReviews, addedCount)))) \<le> n"
proof (induction page arbitrary: allReviews addedCount)
  case Nil
  then show ?case by simp
next
  case (Cons review rest)
  show ?case
  proof (cases "belowCap (Some n) allReviews \<and> \<not> alreadyCollected allReviews review")
    case True
    with Cons.prems have "int (length (allReviews @ [review])) \<le> n" by auto
    from Cons.IH [OF Cons.prems(1) this] True show ?thesis by simp
  next
    case False
    with Cons.IH [OF Cons.prems] show ?thesis by auto
  qed
qed

lemma paginate_length:
  "0 < n \<Longrightarrow> int (length allReviews) \<le> n \<Longrightarrow>
     paginate fuel listing (Some n) (currentPage, hasMorePages, allReviews) = Some rs \<Longrightarrow>
     int (length rs) \<le> n"
proof (induction fuel arbitrary: currentPage hasMorePages allReviews)
  case 0
  then show ?case by simp
next
  case (Suc fuel)
  obtain allReviews' addedCount where
    p: "addPage (Some n) (pageReviews (listing currentPage)) (allReviews, 0) = (allReviews', addedCount)"
    by (cases "addPage (Some n) (pageReviews (listing currentPage)) (allReviews, 0)")
  have l: "int (length allReviews') \<le> n"
    using addPage_length [OF Suc.prems(1,2), of "pageReviews (listing currentPage)" 0] p by simp
  show ?case
  proof (cases "hasMorePages \<and> belowCap (Some n) allReviews")
    case False
    with Suc.prems show ?thesis by (auto split: if_splits)
  next
    case True
    with Suc.prems(3) p have
      "rs = allReviews' \<or>
       paginate fuel listing (Some n) (currentPage + 1, True, allReviews') = Some rs \<or>
       paginate fuel listing (Some n) (currentPage, False, allReviews') = Some rs"
      by (auto split: if_splits)
    with l Suc.IH [OF Suc.prems(1) l] show ?thesis by blast
  qed
qed

text \<open>
  C1 (as amended). For every requested cap \<open>N \<ge> 1\<close>, a session that returns a list returns
  at most \<open>N\<close> reviews, and once \<open>N\<close> reviews are collected the loop over the cards of the
  current page appends nothing more and counts nothing more as added. (A cap of \<open>0\<close> is
  falsy and means no cap.)
\<close>

theorem cap_enforced_for_positive_cap:
  assumes "1 \<le> N"
  shows "(extractAllReviewsWithPagination fuel listing (Some N) = Some rs \<longrightarrow>
            int (length rs) \<le> N) \<and>
         (N \<le> int (length allReviews) \<longrightarrow>
            addPage (Some N) page (allReviews, addedCount) = (allReviews, addedCount))"
proof -
  from assms have pos: "0 < N" and nz: "N \<noteq> 0" by simp_all
  have "int (length ([] :: Review list)) \<le> N" using pos by simp
  from paginate_length [OF pos this] addPage_full [OF nz] show ?thesis
    by (auto simp: extractAllReviewsWithPagination_def)
qed

theorem cap_enforced_for_positive_cap_witness:
  "(1::int) \<le> 2 \<and>
   extractAllReviewsWithPagination 3 singlePageListing (Some 2) =
     Some [mkReview ''r1'', mkReview ''r2''] \<and>
   int (length [mkReview ''r1'', mkReview ''r2'']) \<le> 2 \<and>
   (2::int) \<le> int (length [mkReview ''r1'', mkReview ''r2'']) \<and>
   addPage (Some 2) [mkReview ''r3''] ([mkReview ''r1'', mkReview ''r2''], 2) =
     ([mkReview ''r1'', mkReview ''r2''], 2)"
proof -
  have h: "(1::int) \<le> 2" by simp
  have r: "extractAllReviewsWithPagination 3 singlePageListing (Some 2) =
      Some [mkReview ''r1'', mkReview ''r2'']"
    by (simp add: extractAllReviewsWithPagination_def singlePageListing_def numeral_3_eq_3
        alreadyCollected_def mkReview_def)
  from cap_enforced_for_positive_cap [OF h, of 3 singlePageListing
      "[mkReview ''r1'', mkReview ''r2'']" "[mkReview ''r1'', mkReview ''r2'']" "[mkReview ''r3'']" 2] r
  show ?thesis by simp
qed

text \<open>
  C1 as stated fails at the cap \<open>N = 0\<close>: \<^verbatim>\<open>!maxReviews\<close> holds for \<^verbatim>\<open>0\<close>, so no limit applies and
  the session returns the three reviews of the page.
\<close>

theorem cap_zero_counterexample:
  "extractAllReviewsWithPagination 2 singlePageListing (Some 0) =
     Some [mkReview ''r1'', mkReview ''r2'', mkReview ''r3''] \<and>
   (0::int) < int (length [mkReview ''r1'', mkReview ''r2'', mkReview ''r3''])"
  by (simp add: extractAllReviewsWithPagination_def singlePageListing_def numeral_2_eq_2
      alreadyCollected_def mkReview_def)

lemma paginate_stagnant_uncapped:
  "paginate fuel stagnantListing None (currentPage, True, allReviews) = None"
  by (induction fuel arbitrary: currentPage allReviews)
    (auto simp: stagnantListing_def split: prod.splits)

lemma paginate_stagnant_capped:
  "paginate fuel stagnantListing (Some 5) (currentPage, True, [mkReview ''r1'']) = None"
  by (induction fuel arbitrary: currentPage)
    (auto simp: stagnantListing_def alreadyCollected_def)

text \<open>
  C2. On a listing whose every page shows the same single review and whose pagination
  always opens a next page, every page after the first yields no unseen review, and the
  loop has not returned after any number of page visits, with no cap and with a cap of 5:
  \<^verbatim>\<open>addedCount === 0\<close> is logged and nothing stops the loop.
\<close>

theorem stagnant_session_never_returns:
  "extractAllReviewsWithPagination fuel stagnantListing None = None \<and>
   extractAllReviewsWithPagination fuel stagnantListing (Some 5) = None"
proof (cases fuel)
  case 0
  then show ?thesis by (simp add: extractAllReviewsWithPagination_def)
next
  case (Suc k)
  have "paginate (Suc k) stagnantListing (Some 5) (1, True, []) = None"
    using paginate_stagnant_capped [of k "1 + 1"]
    by (simp add: stagnantListing_def alreadyCollected_def)
  with Suc paginate_stagnant_uncapped [of fuel 1 "[]"] show ?thesis
    by (simp add: extractAllReviewsWithPagination_def)
qed

end
